theory Spec2Isabelle
  imports Complex_Main
begin

section \<open>Data model of \<open>api/views/map/route.py\<close>\<close>

text \<open>
  The views compute pedestrian routes by calling an external map provider and reshaping
  its answers. A Python float is modelled by the real number it denotes, and its
  arithmetic rounds as described in the section on floating-point arithmetic below.
  A coordinate tuple \<open>(x, y)\<close> is a pair; \<open>geojson.Point\<close> and
  \<open>geojson.LineString\<close> are the dictionaries with the key \<open>coordinates\<close>.
\<close>

type_synonym position = "real \<times> real"

datatype point = Point (coordinates: position)

datatype linestring = LineString (ls_coordinates: "position list")

text \<open>
  The exceptions the code can raise. \<open>ValidationError\<close> is raised with the provider's
  response, of which the model keeps the status in \<open>response['meta']['code']\<close>.
  \<open>TypeError\<close> is Python's error for subscripting \<open>None\<close>, \<open>IndexError\<close> the one
  for \<open>items[0]\<close> on an empty list.
\<close>

datatype error = ValidationError int | TypeError | IndexError

text \<open>
  A provider response: \<open>response['meta']['code']\<close> and \<open>response['result']['items']\<close>.
  The directions endpoint returns routes made of legs, steps and edges; an edge carries
  \<open>edge['geometry']['selection']\<close>, a WKT line. The geometries are modelled in the
  parsed form that \<open>wkt.loads\<close> returns, since the WKT text format belongs to the
  external library.
\<close>

record 'i response =
  code :: int
  items :: "'i list"

record edge =
  selection :: linestring

record step =
  edges :: "edge list"

record leg =
  steps :: "step list"

record directions =
  legs :: "leg list"

text \<open>
  Search results. A geo-search item carries \<open>item['geometry']['selection']\<close>, a WKT
  point; a catalogue item carries \<open>item['point']\<close> with the keys \<open>lon\<close> and
  \<open>lat\<close>. Everything else in an item is opaque provider data.
\<close>

record 'a geo_item =
  geo_selection :: point
  geo_data :: 'a

record 'a org_item =
  lon :: real
  lat :: real
  org_data :: 'a

text \<open>A dictionary with the keys \<open>longitude\<close> and \<open>latitude\<close>.\<close>

record lon_lat =
  longitude :: real
  latitude :: real

text \<open>
  An item after \<open>item['point'] = {'longitude': .., 'latitude': ..}\<close> has been
  stored into it.
\<close>

record 'a metadata =
  md_point :: lon_lat
  md_data :: 'a

text \<open>The dictionary handed to \<open>Response\<close> by \<open>prepare_route_response\<close>.\<close>

record 'a route_result =
  walking_time :: real
  route :: "lon_lat list"
  route_points :: "'a metadata list"
  steps_count :: int
  end_point_data :: "'a metadata option"

text \<open>
  What the views import and call but do not define: \<open>geopy\<close>'s \<open>great_circle\<close>
  (in meters), the two geometry helpers of \<open>utils.double_gis.geometry\<close>, and the four
  provider operations reached through \<open>self.api\<close>. They are parameters of the model.
  The provider operations take their keyword arguments in structured form: the text
  rendering of coordinates (\<open>'{} {}'.format\<close>) and the constant keywords
  (\<open>fields\<close>, \<open>type\<close>, \<open>radius\<close>, \<open>page_size\<close>, \<open>edge_filter\<close>) are left out.
  \<open>geo_search\<close> is \<open>api.geo.search\<close> called with \<open>point1\<close>, \<open>point2\<close> and
  the optional \<open>q\<close>; \<open>geo_search_near\<close> is the same endpoint called with \<open>point\<close>.
\<close>

type_synonym unicode = "nat list"

record 'a externals =
  great_circle :: "position \<Rightarrow> position \<Rightarrow> real"
  get_center_of_points :: "point \<Rightarrow> point \<Rightarrow> position"
  get_normal_vector :: "point \<Rightarrow> point \<Rightarrow> position"
  calculate_directions :: "position list \<Rightarrow> int \<Rightarrow> directions response"
  geo_search :: "position \<Rightarrow> position \<Rightarrow> unicode option \<Rightarrow> 'a geo_item response"
  branch_search :: "position \<Rightarrow> position \<Rightarrow> unicode option \<Rightarrow> 'a org_item response"
  geo_search_near :: "position \<Rightarrow> 'a geo_item response"

section \<open>Floating-point arithmetic\<close>

text \<open>
  Python 3's \<open>round(x)\<close> returns the nearest integer, the even one at a tie.
\<close>

definition py_round :: "real \<Rightarrow> int" where
  "py_round x =
     (let f = \<lfloor>x\<rfloor>; d = x - of_int f
      in if d < 1 / 2 then f
         else if 1 / 2 < d then f + 1
         else if even f then f else f + 1)"

text \<open>
  A Python float is an IEEE 754 double. Each arithmetic operation on doubles returns the
  exact result rounded to the nearest double, the one with the even significand at a tie.
  \<open>bexp x\<close> is the binary exponent of a positive \<open>x\<close>, the \<open>e\<close> with
  \<open>2^e \<le> x < 2^(e+1)\<close>; a double has a significand of 53 bits and an exponent of
  at least \<open>-1022\<close>, so that \<open>fl\<close> rounds to a multiple of \<open>2^(e-52)\<close>.
  Infinities, NaN and results of magnitude \<open>2^1024\<close> or more are outside the model.
\<close>

definition pow2 :: "int \<Rightarrow> real" where
  "pow2 k = (if 0 \<le> k then 2 ^ nat k else 1 / 2 ^ nat (- k))"

function bexp :: "real \<Rightarrow> int" where
  "bexp x =
     (if x \<le> 0 then 0
      else if 2 \<le> x then bexp (x / 2) + 1
      else if x < 1 then bexp (x * 2) - 1
      else 0)"
  by pat_completeness auto
termination
proof (relation "measure (\<lambda>x. nat \<lfloor>x\<rfloor> + 2 * nat \<lceil>1 / x\<rceil>)")
  show "wf (measure (\<lambda>x. nat \<lfloor>x\<rfloor> + 2 * nat \<lceil>1 / x\<rceil>))" by simp
next
  fix x :: real
  assume "\<not> x \<le> 0" and x2: "2 \<le> x"
  have a: "\<lfloor>x / 2\<rfloor> < \<lfloor>x\<rfloor>"
  proof -
    have "x / 2 \<le> x - 1" using x2 by simp
    then have "\<lfloor>x / 2\<rfloor> \<le> \<lfloor>x - 1\<rfloor>" by (rule floor_mono)
    then show ?thesis by simp
  qed
  have b: "0 \<le> \<lfloor>x / 2\<rfloor>" using x2 by simp
  have c: "\<lceil>1 / (x / 2)\<rceil> = 1" using x2 by (simp add: ceiling_eq_iff)
  have d: "\<lceil>1 / x\<rceil> = 1" using x2 by (simp add: ceiling_eq_iff)
  show "(x / 2, x) \<in> measure (\<lambda>x. nat \<lfloor>x\<rfloor> + 2 * nat \<lceil>1 / x\<rceil>)"
    using a b c d x2 by simp
next
  fix x :: real
  assume x0: "\<not> x \<le> 0" and "\<not> 2 \<le> x" and x1: "x < 1"
  have fx: "\<lfloor>x\<rfloor> = 0" using x0 x1 by (simp add: floor_eq_iff)
  have f2: "\<lfloor>x * 2\<rfloor> \<le> 1" using x1 by (simp add: floor_le_iff)
  have y: "1 < 1 / x" using x0 x1 by simp
  then have n2: "2 \<le> \<lceil>1 / x\<rceil>" by (simp add: le_ceiling_iff)
  have "1 / (x * 2) \<le> of_int \<lceil>1 / x\<rceil> / 2"
    using le_of_int_ceiling [of "1 / x"] x0 by (simp add: field_simps)
  also have "\<dots> \<le> of_int (\<lceil>1 / x\<rceil> - 1)"
    using n2 by simp
  finally have "1 / (x * 2) \<le> of_int (\<lceil>1 / x\<rceil> - 1)" .
  then have "\<lceil>1 / (x * 2)\<rceil> \<le> \<lceil>1 / x\<rceil> - 1"
    by (rule ceiling_le)
  then have "nat \<lfloor>x * 2\<rfloor> + 2 * nat \<lceil>1 / (x * 2)\<rceil> < nat \<lfloor>x\<rfloor> + 2 * nat \<lceil>1 / x\<rceil>"
    using fx f2 n2 by linarith
  then show "(x * 2, x) \<in> measure (\<lambda>x. nat \<lfloor>x\<rfloor> + 2 * nat \<lceil>1 / x\<rceil>)"
    by simp
qed

declare bexp.simps [simp del]

definition fl :: "real \<Rightarrow> real" where
  "fl x =
     (let e = max (bexp \<bar>x\<bar>) (- 1022); u = pow2 (e - 52)
      in of_int (py_round (x / u)) * u)"

text \<open>
  The four operations. The code divides by non-zero constants only, so Python's
  \<open>ZeroDivisionError\<close> does not arise.
\<close>

definition fadd :: "real \<Rightarrow> real \<Rightarrow> real" where
  "fadd x y = fl (x + y)"

definition fsub :: "real \<Rightarrow> real \<Rightarrow> real" where
  "fsub x y = fl (x - y)"

definition fmul :: "real \<Rightarrow> real \<Rightarrow> real" where
  "fmul x y = fl (x * y)"

definition fdiv :: "real \<Rightarrow> real \<Rightarrow> real" where
  "fdiv x y = fl (x / y)"

text \<open>
  \<open>round(x, 2)\<close> rounds the exact value of \<open>x\<close> to two decimal places, to the even
  digit at a tie, and returns the double nearest to that decimal number.
\<close>

definition py_round2 :: "real \<Rightarrow> real" where
  "py_round2 x = fl (of_int (py_round (x * 100)) / 100)"

section \<open>\<open>AbstractRouteView\<close>\<close>

text \<open>
  \<open>SPEED = 3 * 1000 / 60\<close>, meters per minute: the true division of two integers, a
  float. \<open>AVERAGE_STRIDE_LENGTH = 0.6\<close> is the double nearest to the decimal.
\<close>

definition SPEED :: real where
  "SPEED = fdiv (3 * 1000) 60"

definition AVERAGE_STRIDE_LENGTH :: real where
  "AVERAGE_STRIDE_LENGTH = fl (6 / 10)"

definition METADATA_ROUTE_POINTS_COUNT :: nat where
  "METADATA_ROUTE_POINTS_COUNT = 4"

text \<open>
  \<open>math.pi\<close> is the double nearest to \<open>\<pi>\<close>, the rational number below.
\<close>

definition math_pi :: real where
  "math_pi = 884279719003555 / 281474976710656"

definition points_to_query :: "point list \<Rightarrow> position list" where
  "points_to_query points = map coordinates points"

definition estimate_walking_time :: "'a externals \<Rightarrow> point \<Rightarrow> point \<Rightarrow> real" where
  "estimate_walking_time ext point1 point2 =
     fdiv (great_circle ext (coordinates point1) (coordinates point2)) SPEED"

definition serialize_linestring :: "linestring \<Rightarrow> lon_lat list" where
  "serialize_linestring ls =
     map (\<lambda>position. \<lparr>longitude = fst position, latitude = snd position\<rparr>)
       (ls_coordinates ls)"

definition get_points_for_round_route :: "'a externals \<Rightarrow> point \<Rightarrow> point \<Rightarrow> point list" where
  "get_points_for_round_route ext start_point end_point =
     (let center_point_coordinates = get_center_of_points ext start_point end_point;
          normal_vector = get_normal_vector ext start_point end_point;
          second_point = Point (fadd (fst center_point_coordinates) (fst normal_vector),
                                fadd (snd center_point_coordinates) (snd normal_vector));
          fourth_point = Point (fsub (fst center_point_coordinates) (fst normal_vector),
                                fsub (snd center_point_coordinates) (snd normal_vector))
      in [start_point, second_point, end_point, fourth_point, start_point])"

text \<open>The three nested loops of \<open>build_route\<close> that collect every edge's line.\<close>

definition linestrings_of :: "leg list \<Rightarrow> linestring list" where
  "linestrings_of ls =
     concat (map (\<lambda>leg. concat (map (\<lambda>step. map selection (edges step)) (steps leg))) ls)"

text \<open>
  The stitching loop: \<open>linestrings[:-1]\<close> is \<open>butlast\<close> and
  \<open>linestring['coordinates'][1:]\<close> is \<open>tl\<close>, both empty on the empty list.
\<close>

definition final_linestring_positions :: "linestring list \<Rightarrow> position list" where
  "final_linestring_positions linestrings =
     concat (map (\<lambda>linestring. tl (ls_coordinates linestring)) (butlast linestrings))"

definition build_route :: "'a externals \<Rightarrow> point list \<Rightarrow> int \<Rightarrow> error + linestring" where
  "build_route ext points alternative =
     (let query_points = points_to_query points;
          response = calculate_directions ext query_points alternative
      in if code response \<noteq> 200 then Inl (ValidationError (code response))
         else (case items response of
                 [] \<Rightarrow> Inl IndexError
               | item # _ \<Rightarrow>
                   Inr (LineString (final_linestring_positions (linestrings_of (legs item))))))"

text \<open>
  The sample of \<open>_get_route_points_metadata\<close>: every point when there are at most four,
  otherwise the points at one, two and three quarters of the sequence.
\<close>

definition metadata_route_points :: "point list \<Rightarrow> point list" where
  "metadata_route_points rpoints =
     (let route_points_count = length rpoints
      in if route_points_count \<le> METADATA_ROUTE_POINTS_COUNT then rpoints
         else map (\<lambda>i. rpoints ! (i * (route_points_count div METADATA_ROUTE_POINTS_COUNT)))
                [1 ..< METADATA_ROUTE_POINTS_COUNT])"

text \<open>The enriched item appended to \<open>metadata\<close> after a successful lookup.\<close>

definition with_point :: "position \<Rightarrow> 'a \<Rightarrow> 'a metadata" where
  "with_point position d =
     \<lparr>md_point = \<lparr>longitude = fst position, latitude = snd position\<rparr>, md_data = d\<rparr>"

fun metadata_loop ::
  "'a externals \<Rightarrow> point list \<Rightarrow> 'a metadata list \<Rightarrow> error + 'a metadata list" where
  "metadata_loop ext [] metadata = Inr metadata"
| "metadata_loop ext (p # ps) metadata =
     (let response = geo_search_near ext (coordinates p)
      in if code response = 200 then
           (case items response of
              [] \<Rightarrow> Inl IndexError
            | item # _ \<Rightarrow>
                metadata_loop ext ps
                  (metadata @ [with_point (coordinates (geo_selection item)) (geo_data item)]))
         else metadata_loop ext ps metadata)"

definition get_route_points_metadata ::
  "'a externals \<Rightarrow> point list \<Rightarrow> error + 'a metadata list" where
  "get_route_points_metadata ext rpoints =
     metadata_loop ext (metadata_route_points rpoints) []"

text \<open>
  The dictionary literal is evaluated key by key, so a failure of \<open>build_route\<close> comes
  before one of the metadata lookup.
\<close>

definition prepare_route_response ::
  "'a externals \<Rightarrow> real \<Rightarrow> point list \<Rightarrow> 'a metadata option \<Rightarrow> int \<Rightarrow> error + 'a route_result" where
  "prepare_route_response ext wt rpoints end_point_metadata alternatives_count =
     (case build_route ext rpoints alternatives_count of
        Inl e \<Rightarrow> Inl e
      | Inr ls \<Rightarrow>
          (case get_route_points_metadata ext rpoints of
             Inl e \<Rightarrow> Inl e
           | Inr md \<Rightarrow>
               Inr \<lparr>walking_time = py_round2 wt,
                    route = serialize_linestring ls,
                    route_points = md,
                    steps_count = py_round (fdiv (fmul SPEED wt) AVERAGE_STRIDE_LENGTH),
                    end_point_data = end_point_metadata\<rparr>))"

section \<open>\<open>POIRouteView\<close>\<close>

definition OPTIMAL_WALK_TIME :: real where
  "OPTIMAL_WALK_TIME = 30"

text \<open>
  The category constants of \<open>POIRouteSerializer\<close> are defined outside this file and
  are a parameter.
\<close>

record 't poi_route_serializer =
  BAR :: 't
  CULTURE :: 't
  FOOD :: 't
  ROMANTIC :: 't
  INVESTIGATE :: 't

text \<open>The literals \<open>0.029\<close> and \<open>0.019\<close> are the doubles nearest to them.\<close>

definition get_search_polygon :: "point \<Rightarrow> point \<times> point" where
  "get_search_polygon start_point =
     (let c = coordinates start_point;
          point1 = Point (fsub (fst c) (fl (29 / 1000)), fadd (snd c) (fl (19 / 1000)));
          point2 = Point (fadd (fst c) (fl (29 / 1000)), fsub (snd c) (fl (19 / 1000)))
      in (point1, point2))"

text \<open>
  The search terms are Russian words, given by their code points; a category that matches
  no constant falls off the end of the function, which returns \<open>None\<close>.
\<close>

definition get_search_query_by_type :: "'t poi_route_serializer \<Rightarrow> 't \<Rightarrow> unicode option" where
  "get_search_query_by_type ser ty =
     (if ty = BAR ser then Some [0x411, 0x430, 0x440]
      else if ty = CULTURE ser then Some [0x422, 0x435, 0x430, 0x442, 0x440]
      else if ty = FOOD ser then Some [0x41F, 0x440, 0x43E, 0x434, 0x443, 0x43A, 0x442, 0x44B]
      else if ty = ROMANTIC ser
        then Some [0x41A, 0x438, 0x43D, 0x43E, 0x442, 0x435, 0x430, 0x442, 0x440]
      else if ty = INVESTIGATE ser
        then Some [0x41F, 0x430, 0x43C, 0x44F, 0x442, 0x43D, 0x438, 0x43A]
      else None)"

text \<open>
  One pass of the scoring loop. \<open>best\<close> holds \<open>optimal_point\<close>, \<open>optimal_time\<close> and
  \<open>metadata\<close>, which are \<open>None\<close> together before the first item and set together
  afterwards. The two scorers repeat the same loop and differ in how an item gives its
  point, the argument \<open>item_point_of\<close>. The product, the two differences and the
  comparison are those of doubles; \<open>math.fabs\<close> is exact.
\<close>

definition optimal_step ::
  "'a externals \<Rightarrow> point \<Rightarrow> ('i \<Rightarrow> point) \<Rightarrow> (point \<times> real \<times> 'i) option \<Rightarrow> 'i
     \<Rightarrow> (point \<times> real \<times> 'i) option" where
  "optimal_step ext start_point item_point_of best item =
     (let item_point = item_point_of item;
          wt = fmul math_pi (estimate_walking_time ext start_point item_point)
      in case best of
           None \<Rightarrow> Some (item_point, wt, item)
         | Some (optimal_point, optimal_time, metadata) \<Rightarrow>
             if \<bar>fsub optimal_time OPTIMAL_WALK_TIME\<bar> > \<bar>fsub wt OPTIMAL_WALK_TIME\<bar>
             then Some (item_point, wt, item)
             else Some (optimal_point, optimal_time, metadata))"

definition org_item_point :: "'a org_item \<Rightarrow> point" where
  "org_item_point item = Point (lon item, lat item)"

definition search_optimal_organization_point ::
  "'a externals \<Rightarrow> point \<Rightarrow> 'a org_item list \<Rightarrow> error + point \<times> 'a metadata" where
  "search_optimal_organization_point ext start_point its =
     (case foldl (optimal_step ext start_point org_item_point) None its of
        None \<Rightarrow> Inl TypeError
      | Some (optimal_point, optimal_time, metadata) \<Rightarrow>
          Inr (optimal_point, with_point (coordinates optimal_point) (org_data metadata)))"

definition search_optimal_geo_point ::
  "'a externals \<Rightarrow> point \<Rightarrow> 'a geo_item list \<Rightarrow> error + point \<times> 'a metadata" where
  "search_optimal_geo_point ext start_point its =
     (case foldl (optimal_step ext start_point geo_selection) None its of
        None \<Rightarrow> Inl TypeError
      | Some (optimal_point, optimal_time, metadata) \<Rightarrow>
          Inr (optimal_point, with_point (coordinates optimal_point) (geo_data metadata)))"

definition search_organization_point ::
  "'a externals \<Rightarrow> point \<Rightarrow> point \<Rightarrow> point \<Rightarrow> unicode option \<Rightarrow> error + point \<times> 'a metadata" where
  "search_organization_point ext start_point point1 point2 query =
     (let response = branch_search ext (coordinates point1) (coordinates point2) query
      in if code response \<noteq> 200 then Inl (ValidationError (code response))
         else search_optimal_organization_point ext start_point (items response))"

text \<open>
  \<open>search_geo_point\<close> returns the scorer's pair, raises, or falls off its end and
  returns \<open>None\<close>.
\<close>

definition search_geo_point ::
  "'a externals \<Rightarrow> point \<Rightarrow> point \<Rightarrow> point \<Rightarrow> unicode option
     \<Rightarrow> error + (point \<times> 'a metadata) option" where
  "search_geo_point ext start_point point1 point2 query =
     (let response = geo_search ext (coordinates point1) (coordinates point2) query
      in if code response = 200 then
           (case search_optimal_geo_point ext start_point (items response) of
              Inl e \<Rightarrow> Inl e
            | Inr r \<Rightarrow> Inr (Some r))
         else if query = None then Inl (ValidationError (code response))
         else Inr None)"

definition search_destination ::
  "'a externals \<Rightarrow> 't poi_route_serializer \<Rightarrow> point \<Rightarrow> 't \<Rightarrow> error + point \<times> 'a metadata" where
  "search_destination ext ser start_point ty =
     (let (point1, point2) = get_search_polygon start_point;
          query = get_search_query_by_type ser ty
      in case search_geo_point ext start_point point1 point2 query of
           Inl e \<Rightarrow> Inl e
         | Inr None \<Rightarrow> search_organization_point ext start_point point1 point2 query
         | Inr (Some result_point_data) \<Rightarrow> Inr result_point_data)"

text \<open>
  \<open>POIRouteView.post\<close> on the data the serializer has validated: the start point and
  the category.
\<close>

definition poi_post ::
  "'a externals \<Rightarrow> 't poi_route_serializer \<Rightarrow> lon_lat \<Rightarrow> 't \<Rightarrow> error + 'a route_result" where
  "poi_post ext ser raw_point ty =
     (let start_point = Point (longitude raw_point, latitude raw_point)
      in case search_destination ext ser start_point ty of
           Inl e \<Rightarrow> Inl e
         | Inr (end_point, metadata) \<Rightarrow>
             (let wt = fmul math_pi (estimate_walking_time ext start_point end_point)
              in prepare_route_response ext wt
                   (get_points_for_round_route ext start_point end_point) (Some metadata) 0))"

section \<open>\<open>ConcreteRouteView\<close>\<close>

definition ALTERNATIVES_COUNT :: int where
  "ALTERNATIVES_COUNT = 5"

definition concrete_post :: "'a externals \<Rightarrow> lon_lat \<Rightarrow> lon_lat \<Rightarrow> error + 'a route_result" where
  "concrete_post ext raw_start_point raw_end_point =
     (let start_point = Point (longitude raw_start_point, latitude raw_start_point);
          end_point = Point (longitude raw_end_point, latitude raw_end_point);
          wt = estimate_walking_time ext start_point end_point
      in prepare_route_response ext wt [start_point, end_point] None ALTERNATIVES_COUNT)"

section \<open>The polyline as the specification describes it\<close>

text \<open>
  The specification's wording of the stitched polyline, for comparison with
  \<open>final_linestring_positions\<close>: the first and the last edge are dropped, and the
  remaining edges are concatenated, each without its first point except the first one
  retained.
\<close>

definition spec_polyline :: "linestring list \<Rightarrow> position list" where
  "spec_polyline linestrings =
     (case butlast (tl linestrings) of
        [] \<Rightarrow> []
      | first # rest \<Rightarrow>
          ls_coordinates first @ concat (map (\<lambda>l. tl (ls_coordinates l)) rest))"

section \<open>Example providers\<close>

text \<open>
  Concrete providers on which the theorems below are evaluated. Every provider operation
  of \<open>stub_externals\<close> answers with a fixed response, except the nearby lookup, which is
  given as a function of the point. The distance is fifty times the coordinate
  difference, and the geometry helpers are the midpoint and a perpendicular of the
  segment, all computed in doubles.
\<close>

definition stub_great_circle :: "position \<Rightarrow> position \<Rightarrow> real" where
  "stub_great_circle p q = fmul 50 (fadd \<bar>fsub (fst p) (fst q)\<bar> \<bar>fsub (snd p) (snd q)\<bar>)"

definition stub_center :: "point \<Rightarrow> point \<Rightarrow> position" where
  "stub_center p q =
     (fdiv (fadd (fst (coordinates p)) (fst (coordinates q))) 2,
      fdiv (fadd (snd (coordinates p)) (snd (coordinates q))) 2)"

definition stub_normal :: "point \<Rightarrow> point \<Rightarrow> position" where
  "stub_normal p q =
     (fsub (snd (coordinates p)) (snd (coordinates q)),
      fsub (fst (coordinates q)) (fst (coordinates p)))"

definition stub_externals ::
  "directions response \<Rightarrow> string geo_item response \<Rightarrow> string org_item response
     \<Rightarrow> (position \<Rightarrow> string geo_item response) \<Rightarrow> string externals" where
  "stub_externals d g b n =
     \<lparr>great_circle = stub_great_circle,
      get_center_of_points = stub_center,
      get_normal_vector = stub_normal,
      calculate_directions = (\<lambda>waypoints alternative. d),
      geo_search = (\<lambda>point1 point2 q. g),
      branch_search = (\<lambda>point1 point2 q. b),
      geo_search_near = n\<rparr>"

definition edge_of :: "position list \<Rightarrow> edge" where
  "edge_of ps = \<lparr>selection = LineString ps\<rparr>"

text \<open>Four edges in two legs; the first and the last are zero-length markers.\<close>

definition marked_route :: directions where
  "marked_route =
     \<lparr>legs = [\<lparr>steps = [\<lparr>edges = [edge_of [(0, 0), (0, 0)],
                                    edge_of [(0, 0), (1, 0), (1, 1)]]\<rparr>]\<rparr>,
              \<lparr>steps = [\<lparr>edges = [edge_of [(1, 1), (2, 1)]]\<rparr>,
                       \<lparr>edges = [edge_of [(2, 1), (2, 1)]]\<rparr>]\<rparr>]\<rparr>"

text \<open>Two edges only.\<close>

definition short_route :: directions where
  "short_route =
     \<lparr>legs = [\<lparr>steps = [\<lparr>edges = [edge_of [(0, 0), (1, 0)], edge_of [(1, 0), (1, 0)]]\<rparr>]\<rparr>]\<rparr>"

definition ok_response :: "'i list \<Rightarrow> 'i response" where
  "ok_response xs = \<lparr>code = 200, items = xs\<rparr>"

definition failed_response :: "'i response" where
  "failed_response = \<lparr>code = 404, items = []\<rparr>"

definition cafe :: "string org_item" where
  "cafe = \<lparr>lon = 3, lat = 0, org_data = ''cafe''\<rparr>"

definition pub :: "string org_item" where
  "pub = \<lparr>lon = 8, lat = 0, org_data = ''pub''\<rparr>"

definition club :: "string org_item" where
  "club = \<lparr>lon = 14, lat = 0, org_data = ''club''\<rparr>"

definition statue :: "string geo_item" where
  "statue = \<lparr>geo_selection = Point (0, 9), geo_data = ''statue''\<rparr>"

definition fountain :: "string geo_item" where
  "fountain = \<lparr>geo_selection = Point (9, 0), geo_data = ''fountain''\<rparr>"

text \<open>
  Two places that the doubles cannot tell apart: the obelisk lies at the double nearest to
  \<open>60 / math.pi\<close> minutes of straight walk from the origin, where the product with
  \<open>math.pi\<close> rounds to 60, as far above the thirty minutes as the kiosk at the origin
  is below.
\<close>

definition obelisk :: "string geo_item" where
  "obelisk =
     \<lparr>geo_selection = Point (5375776068021243 / 281474976710656, 0),
      geo_data = ''obelisk''\<rparr>"

definition kiosk :: "string geo_item" where
  "kiosk = \<lparr>geo_selection = Point (0, 0), geo_data = ''kiosk''\<rparr>"

text \<open>A nearby lookup that succeeds west of longitude 1 and fails elsewhere.\<close>

definition near_west :: "position \<Rightarrow> string geo_item response" where
  "near_west p = (if fst p < 1 then ok_response [statue] else failed_response)"

definition string_serializer :: "string poi_route_serializer" where
  "string_serializer =
     \<lparr>BAR = ''bar'', CULTURE = ''culture'', FOOD = ''food'', ROMANTIC = ''romantic'',
      INVESTIGATE = ''investigate''\<rparr>"

lemmas stub_defs = stub_externals_def stub_great_circle_def stub_center_def stub_normal_def
  edge_of_def marked_route_def
  short_route_def ok_response_def failed_response_def cafe_def pub_def club_def statue_def
  fountain_def obelisk_def kiosk_def near_west_def string_serializer_def

lemmas float_defs = fl_def fadd_def fsub_def fmul_def fdiv_def bexp.simps pow2_def
  py_round_def py_round2_def Let_def

section \<open>Properties\<close>

subsection \<open>Rounding\<close>

lemma py_round_nearest: "\<bar>of_int (py_round x) - x\<bar> \<le> 1 / 2"
proof -
  have "of_int \<lfloor>x\<rfloor> \<le> x" and "x < of_int \<lfloor>x\<rfloor> + 1"
    by linarith+
  then show ?thesis
    by (auto simp: py_round_def Let_def)
qed

lemma py_round_tie_even:
  assumes "\<bar>of_int (py_round x) - x\<bar> = 1 / 2"
  shows "even (py_round x)"
proof -
  have b: "of_int \<lfloor>x\<rfloor> \<le> x" "x < of_int \<lfloor>x\<rfloor> + 1"
    by linarith+
  show ?thesis
  proof (cases "x - of_int \<lfloor>x\<rfloor> = 1 / 2")
    case True
    then show ?thesis by (simp add: py_round_def Let_def)
  next
    case False
    with assms b show ?thesis
      by (auto simp: py_round_def Let_def split: if_splits)
  qed
qed

lemma pow2_pos: "0 < pow2 k"
  by (simp add: pow2_def)

lemma pow2_Suc: "pow2 (k + 1) = 2 * pow2 k"
proof (cases "0 \<le> k")
  case True
  then show ?thesis by (simp add: pow2_def nat_add_distrib)
next
  case False
  then have "nat (- k) = Suc (nat (- (k + 1)))" by simp
  then show ?thesis using False by (simp add: pow2_def)
qed

lemma bexp_bounds:
  assumes "0 < x"
  shows "pow2 (bexp x) \<le> x \<and> x < pow2 (bexp x + 1)"
  using assms
proof (induction x rule: bexp.induct)
  case (1 x)
  show ?case
  proof (cases "2 \<le> x")
    case True
    with 1 have "pow2 (bexp (x / 2)) \<le> x / 2 \<and> x / 2 < pow2 (bexp (x / 2) + 1)"
      by simp
    moreover have "bexp x = bexp (x / 2) + 1"
      using True "1.prems" by (subst bexp.simps) simp
    ultimately show ?thesis
      using pow2_Suc [of "bexp (x / 2)"] pow2_Suc [of "bexp (x / 2) + 1"]
      by (simp add: add.commute)
  next
    case False
    show ?thesis
    proof (cases "x < 1")
      case True
      with 1 False have "pow2 (bexp (x * 2)) \<le> x * 2 \<and> x * 2 < pow2 (bexp (x * 2) + 1)"
        by simp
      moreover have "bexp x = bexp (x * 2) - 1"
        using True False "1.prems" by (subst bexp.simps) simp
      ultimately show ?thesis
        using pow2_Suc [of "bexp (x * 2) - 1"] pow2_Suc [of "bexp (x * 2)"] by simp
    next
      case notless: False
      have "bexp x = 0"
        using False notless "1.prems" by (subst bexp.simps) simp
      with False notless show ?thesis
        by (simp add: pow2_def)
    qed
  qed
qed

lemma fl_nearest: "\<bar>fl x - x\<bar> \<le> pow2 (max (bexp \<bar>x\<bar>) (- 1022) - 52) / 2"
proof -
  define u where "u = pow2 (max (bexp \<bar>x\<bar>) (- 1022) - 52)"
  have u: "0 < u" by (simp add: u_def pow2_pos)
  have "fl x - x = (of_int (py_round (x / u)) - x / u) * u"
    using u by (simp add: fl_def Let_def u_def [symmetric] field_simps)
  then have "\<bar>fl x - x\<bar> = \<bar>of_int (py_round (x / u)) - x / u\<bar> * u"
    using u by (simp add: abs_mult)
  also have "\<dots> \<le> 1 / 2 * u"
    using py_round_nearest [of "x / u"] u by (intro mult_right_mono) simp_all
  finally show ?thesis by (simp add: u_def)
qed

lemma SPEED_value: "SPEED = 50"
  by (simp add: SPEED_def float_defs)

lemma AVERAGE_STRIDE_LENGTH_value:
  "AVERAGE_STRIDE_LENGTH = 5404319552844595 / 9007199254740992"
  by (simp add: AVERAGE_STRIDE_LENGTH_def float_defs)

text \<open>
  With more than four route points the three sampled indices lie inside the sequence, so
  the subscripts of \<open>metadata_route_points\<close> never raise.
\<close>

lemma sample_index_in_range:
  assumes "METADATA_ROUTE_POINTS_COUNT < n" and "i < METADATA_ROUTE_POINTS_COUNT"
  shows "i * (n div METADATA_ROUTE_POINTS_COUNT) < n"
proof -
  have "i * (n div 4) \<le> 3 * (n div 4)"
    using assms(2) by (simp add: METADATA_ROUTE_POINTS_COUNT_def)
  also have "\<dots> < n"
    using assms(1) by (simp add: METADATA_ROUTE_POINTS_COUNT_def)
  finally show ?thesis by (simp add: METADATA_ROUTE_POINTS_COUNT_def)
qed

subsection \<open>Route assembly\<close>

lemma build_route_ok:
  assumes "code (calculate_directions ext (points_to_query points) alternative) = 200"
    and "items (calculate_directions ext (points_to_query points) alternative) = item # others"
  shows "build_route ext points alternative =
           Inr (LineString (final_linestring_positions (linestrings_of (legs item))))"
  using assms by (simp add: build_route_def Let_def)

text \<open>
  Claim C1. The provider returns the first and the last edge as zero-length markers. On a
  successful directions response \<open>build_route\<close> drops the last edge and concatenates the
  other edges' points without the first point of each. When the first edge is a marker of
  two equal points at which the second edge starts and at least three edges were
  returned, this is the polyline of the specification: first and last edge dropped, the
  others concatenated with every first point omitted except that of the first edge
  retained. With exactly four edges it is the second edge's points followed by the third
  edge's points after the junction.
\<close>

theorem build_route_stitches:
  assumes "code (calculate_directions ext (points_to_query points) alternative) = 200"
    and "items (calculate_directions ext (points_to_query points) alternative) = item # others"
  shows "build_route ext points alternative =
           Inr (LineString (concat (map (\<lambda>l. tl (ls_coordinates l))
                  (butlast (linestrings_of (legs item))))))
         \<and> (linestrings_of (legs item) =
               LineString [p, p] # LineString (p # ps) # third # rest
             \<longrightarrow> build_route ext points alternative =
                   Inr (LineString (spec_polyline (linestrings_of (legs item)))))
         \<and> (linestrings_of (legs item) =
               [LineString [p, p], LineString (p # ps), third, fourth]
             \<longrightarrow> build_route ext points alternative =
                   Inr (LineString (p # ps @ tl (ls_coordinates third))))"
  using build_route_ok [OF assms]
  by (simp add: final_linestring_positions_def spec_polyline_def)

text \<open>The four-edge route with markers at both ends gives the two middle edges.\<close>

theorem build_route_stitches_witness:
  "code (calculate_directions
           (stub_externals (ok_response [marked_route]) failed_response failed_response
              near_west)
           (points_to_query [Point (0, 0), Point (2, 1)]) 0) = 200
   \<and> linestrings_of (legs marked_route) =
       [LineString [(0, 0), (0, 0)], LineString [(0, 0), (1, 0), (1, 1)],
        LineString [(1, 1), (2, 1)], LineString [(2, 1), (2, 1)]]
   \<and> build_route
         (stub_externals (ok_response [marked_route]) failed_response failed_response
            near_west)
         [Point (0, 0), Point (2, 1)] 0 = Inr (LineString [(0, 0), (1, 0), (1, 1), (2, 1)])
   \<and> spec_polyline (linestrings_of (legs marked_route)) = [(0, 0), (1, 0), (1, 1), (2, 1)]"
  using build_route_stitches [of
      "stub_externals (ok_response [marked_route]) failed_response failed_response near_west"
      "[Point (0, 0), Point (2, 1)]" 0 marked_route "[]" "(0, 0)" "[(1, 0), (1, 1)]"
      "LineString [(1, 1), (2, 1)]" "[LineString [(2, 1), (2, 1)]]"
      "LineString [(2, 1), (2, 1)]"]
  by (simp add: stub_defs linestrings_of_def spec_polyline_def)

text \<open>
  Claim C3, amended. On a successful directions response with fewer than three edges
  \<open>build_route\<close> does not fail: it returns the first edge's points after the first
  when there are two edges, and the empty polyline when there is one edge or none.
\<close>

theorem build_route_short:
  assumes "code (calculate_directions ext (points_to_query points) alternative) = 200"
    and "items (calculate_directions ext (points_to_query points) alternative) = item # others"
    and "length (linestrings_of (legs item)) < 3"
  shows "build_route ext points alternative =
           Inr (LineString (case linestrings_of (legs item) of
                              [first, second] \<Rightarrow> tl (ls_coordinates first)
                            | _ \<Rightarrow> []))"
proof -
  consider "linestrings_of (legs item) = []"
    | a where "linestrings_of (legs item) = [a]"
    | a b where "linestrings_of (legs item) = [a, b]"
    using assms(3)
    by (cases "linestrings_of (legs item)" rule: list.exhaust;
        cases "tl (linestrings_of (legs item))" rule: list.exhaust;
        cases "tl (tl (linestrings_of (legs item)))" rule: list.exhaust) auto
  then show ?thesis
    using build_route_ok [OF assms(1,2)]
    by cases (simp_all add: final_linestring_positions_def)
qed

theorem build_route_short_witness:
  "code (calculate_directions (stub_externals (ok_response [short_route]) failed_response failed_response near_west)
           (points_to_query [Point (0, 0), Point (1, 0)]) 0) = 200
   \<and> length (linestrings_of (legs short_route)) < 3
   \<and> build_route (stub_externals (ok_response [short_route]) failed_response failed_response near_west)
       [Point (0, 0), Point (1, 0)] 0 = Inr (LineString [(1, 0)])"
  using build_route_short [of "stub_externals (ok_response [short_route]) failed_response failed_response near_west"
      "[Point (0, 0), Point (1, 0)]" 0 short_route "[]"]
  by (simp add: stub_defs linestrings_of_def)

text \<open>A response with two edges is answered with a polyline, not with an error.\<close>

theorem build_route_short_counterexample:
  "length (linestrings_of (legs short_route)) = 2
   \<and> build_route (stub_externals (ok_response [short_route]) failed_response failed_response
        near_west) [Point (0, 0), Point (1, 0)] 0 = Inr (LineString [(1, 0)])"
  by (simp add: build_route_def Let_def stub_defs linestrings_of_def
      final_linestring_positions_def)

subsection \<open>Loop waypoints\<close>


subsection \<open>Destination scorer\<close>

text \<open>
  Claim C4, amended. On an empty candidate list both scorers fail, with Python's
  \<open>TypeError\<close>: the loop leaves \<open>optimal_point\<close> at \<open>None\<close> and subscripting it raises.
  The code defines no error of its own for this case and does not raise the
  \<open>ValidationError\<close> of its other failures.
\<close>

theorem scorer_empty_fails:
  "search_optimal_organization_point ext start_point [] = Inl TypeError
   \<and> search_optimal_geo_point ext start_point [] = Inl TypeError"
  by (simp add: search_optimal_organization_point_def search_optimal_geo_point_def)

text \<open>
  A geo-search that succeeds with no item ends the request for bars in the
  \<open>TypeError\<close>, before the catalogue is asked.
\<close>

theorem scorer_empty_counterexample:
  "search_optimal_organization_point
     (stub_externals failed_response (ok_response []) (ok_response [cafe, pub]) near_west)
     (Point (0, 0)) [] = Inl TypeError
   \<and> search_optimal_geo_point
     (stub_externals failed_response (ok_response []) (ok_response [cafe, pub]) near_west)
     (Point (0, 0)) [] = Inl TypeError
   \<and> search_destination
     (stub_externals failed_response (ok_response []) (ok_response [cafe, pub]) near_west)
     string_serializer (Point (0, 0)) ''bar'' = Inl TypeError"
  by (simp add: search_optimal_organization_point_def search_optimal_geo_point_def
      search_destination_def search_geo_point_def Let_def stub_defs get_search_polygon_def
      get_search_query_by_type_def)

lemma optimal_foldl:
  fixes pt :: "'i \<Rightarrow> point"
  assumes "its \<noteq> []"
  shows "\<exists>i<length its.
           foldl (optimal_step ext s pt) None its
             = Some (pt (its ! i), fmul math_pi (estimate_walking_time ext s (pt (its ! i))),
                     its ! i)
         \<and> (\<forall>j<length its.
               \<bar>fsub (fmul math_pi (estimate_walking_time ext s (pt (its ! i))))
                  OPTIMAL_WALK_TIME\<bar>
               \<le> \<bar>fsub (fmul math_pi (estimate_walking_time ext s (pt (its ! j))))
                  OPTIMAL_WALK_TIME\<bar>)
         \<and> (\<forall>j<i.
               \<bar>fsub (fmul math_pi (estimate_walking_time ext s (pt (its ! i))))
                  OPTIMAL_WALK_TIME\<bar>
               < \<bar>fsub (fmul math_pi (estimate_walking_time ext s (pt (its ! j))))
                  OPTIMAL_WALK_TIME\<bar>)"
  using assms
proof (induction its rule: rev_induct)
  case Nil
  then show ?case by simp
next
  case (snoc x xs)
  let ?W = "\<lambda>y. fmul math_pi (estimate_walking_time ext s (pt y))"
  let ?D = "\<lambda>y. \<bar>fsub (?W y) OPTIMAL_WALK_TIME\<bar>"
  show ?case
  proof (cases "xs = []")
    case True
    then show ?thesis by (simp add: optimal_step_def Let_def)
  next
    case False
    from snoc.IH [OF False] obtain i where i: "i < length xs"
      and st: "foldl (optimal_step ext s pt) None xs = Some (pt (xs ! i), ?W (xs ! i), xs ! i)"
      and mn: "\<forall>j<length xs. ?D (xs ! i) \<le> ?D (xs ! j)"
      and fs: "\<forall>j<i. ?D (xs ! i) < ?D (xs ! j)"
      by blast
    show ?thesis
    proof (cases "?D (xs ! i) > ?D x")
      case True
      have "foldl (optimal_step ext s pt) None (xs @ [x]) = Some (pt x, ?W x, x)"
        using st True by (simp add: optimal_step_def Let_def)
      moreover have "\<forall>j<length (xs @ [x]). ?D x \<le> ?D ((xs @ [x]) ! j)"
        using mn True by (auto simp: nth_append less_Suc_eq intro: order_trans less_imp_le)
      moreover have "\<forall>j<length xs. ?D x < ?D ((xs @ [x]) ! j)"
        using mn True by (auto simp: nth_append intro: less_le_trans)
      ultimately show ?thesis
        by (intro exI [of _ "length xs"]) (simp add: nth_append)
    next
      case False
      have "foldl (optimal_step ext s pt) None (xs @ [x]) = Some (pt (xs ! i), ?W (xs ! i), xs ! i)"
        using st False by (simp add: optimal_step_def Let_def)
      moreover have "\<forall>j<length (xs @ [x]). ?D (xs ! i) \<le> ?D ((xs @ [x]) ! j)"
        using mn False by (auto simp: nth_append less_Suc_eq)
      moreover have "\<forall>j<i. ?D (xs ! i) < ?D ((xs @ [x]) ! j)"
        using fs i by (auto simp: nth_append)
      ultimately show ?thesis
        using i by (intro exI [of _ i]) (simp add: nth_append)
    qed
  qed
qed

text \<open>
  Claim C5. On a non-empty candidate list both scorers return the candidate at some index
  \<open>i\<close> whose distance \<open>fabs(math.pi * estimate_walking_time(start, candidate) - 30)\<close>,
  as the doubles compute it, is the least of the list and strictly less than that of
  every earlier candidate: the first-seen candidate among those closest to thirty minutes.
\<close>

theorem scorer_picks_first_closest:
  assumes "org_items \<noteq> []" and "geo_items \<noteq> []"
  shows "(\<exists>i<length org_items.
            search_optimal_organization_point ext start_point org_items
              = Inr (Point (lon (org_items ! i), lat (org_items ! i)),
                     with_point (lon (org_items ! i), lat (org_items ! i))
                       (org_data (org_items ! i)))
          \<and> (\<forall>j<length org_items.
                \<bar>fsub (fmul math_pi (estimate_walking_time ext start_point
                    (Point (lon (org_items ! i), lat (org_items ! i))))) 30\<bar>
                \<le> \<bar>fsub (fmul math_pi (estimate_walking_time ext start_point
                    (Point (lon (org_items ! j), lat (org_items ! j))))) 30\<bar>)
          \<and> (\<forall>j<i.
                \<bar>fsub (fmul math_pi (estimate_walking_time ext start_point
                    (Point (lon (org_items ! i), lat (org_items ! i))))) 30\<bar>
                < \<bar>fsub (fmul math_pi (estimate_walking_time ext start_point
                    (Point (lon (org_items ! j), lat (org_items ! j))))) 30\<bar>))
       \<and> (\<exists>i<length geo_items.
            search_optimal_geo_point ext start_point geo_items
              = Inr (geo_selection (geo_items ! i),
                     with_point (coordinates (geo_selection (geo_items ! i)))
                       (geo_data (geo_items ! i)))
          \<and> (\<forall>j<length geo_items.
                \<bar>fsub (fmul math_pi (estimate_walking_time ext start_point
                    (geo_selection (geo_items ! i)))) 30\<bar>
                \<le> \<bar>fsub (fmul math_pi (estimate_walking_time ext start_point
                    (geo_selection (geo_items ! j)))) 30\<bar>)
          \<and> (\<forall>j<i.
                \<bar>fsub (fmul math_pi (estimate_walking_time ext start_point
                    (geo_selection (geo_items ! i)))) 30\<bar>
                < \<bar>fsub (fmul math_pi (estimate_walking_time ext start_point
                    (geo_selection (geo_items ! j)))) 30\<bar>))"
proof
  from optimal_foldl [OF assms(1), of ext start_point org_item_point]
  show "\<exists>i<length org_items.
            search_optimal_organization_point ext start_point org_items
              = Inr (Point (lon (org_items ! i), lat (org_items ! i)),
                     with_point (lon (org_items ! i), lat (org_items ! i))
                       (org_data (org_items ! i)))
          \<and> (\<forall>j<length org_items.
                \<bar>fsub (fmul math_pi (estimate_walking_time ext start_point
                    (Point (lon (org_items ! i), lat (org_items ! i))))) 30\<bar>
                \<le> \<bar>fsub (fmul math_pi (estimate_walking_time ext start_point
                    (Point (lon (org_items ! j), lat (org_items ! j))))) 30\<bar>)
          \<and> (\<forall>j<i.
                \<bar>fsub (fmul math_pi (estimate_walking_time ext start_point
                    (Point (lon (org_items ! i), lat (org_items ! i))))) 30\<bar>
                < \<bar>fsub (fmul math_pi (estimate_walking_time ext start_point
                    (Point (lon (org_items ! j), lat (org_items ! j))))) 30\<bar>)"
    unfolding search_optimal_organization_point_def org_item_point_def OPTIMAL_WALK_TIME_def
    by (elim exE conjE, rule_tac x = i in exI) simp
next
  from optimal_foldl [OF assms(2), of ext start_point geo_selection]
  show "\<exists>i<length geo_items.
            search_optimal_geo_point ext start_point geo_items
              = Inr (geo_selection (geo_items ! i),
                     with_point (coordinates (geo_selection (geo_items ! i)))
                       (geo_data (geo_items ! i)))
          \<and> (\<forall>j<length geo_items.
                \<bar>fsub (fmul math_pi (estimate_walking_time ext start_point
                    (geo_selection (geo_items ! i)))) 30\<bar>
                \<le> \<bar>fsub (fmul math_pi (estimate_walking_time ext start_point
                    (geo_selection (geo_items ! j)))) 30\<bar>)
          \<and> (\<forall>j<i.
                \<bar>fsub (fmul math_pi (estimate_walking_time ext start_point
                    (geo_selection (geo_items ! i)))) 30\<bar>
                < \<bar>fsub (fmul math_pi (estimate_walking_time ext start_point
                    (geo_selection (geo_items ! j)))) 30\<bar>)"
    unfolding search_optimal_geo_point_def OPTIMAL_WALK_TIME_def
    by (elim exE conjE, rule_tac x = i in exI) simp
qed

text \<open>
  Of three catalogue candidates at 3, 8 and 14 minutes of straight walk the scorer takes
  the second. Of the obelisk and the kiosk, which the doubles place at the same distance
  of thirty from the target, it takes the one seen first, in either order; the exact
  product for the obelisk is not 60.
\<close>

theorem scorer_picks_first_closest_witness:
  "[cafe, pub, club] \<noteq> [] \<and> [obelisk, kiosk] \<noteq> []
   \<and> search_optimal_organization_point
         (stub_externals failed_response failed_response failed_response near_west)
         (Point (0, 0)) [cafe, pub, club] = Inr (Point (8, 0), with_point (8, 0) ''pub'')
   \<and> search_optimal_geo_point
         (stub_externals failed_response failed_response failed_response near_west)
         (Point (0, 0)) [obelisk, kiosk]
       = Inr (Point (5375776068021243 / 281474976710656, 0),
              with_point (5375776068021243 / 281474976710656, 0) ''obelisk'')
   \<and> search_optimal_geo_point
         (stub_externals failed_response failed_response failed_response near_west)
         (Point (0, 0)) [kiosk, obelisk] = Inr (Point (0, 0), with_point (0, 0) ''kiosk'')
   \<and> fmul math_pi (5375776068021243 / 281474976710656) = 60
   \<and> math_pi * (5375776068021243 / 281474976710656) \<noteq> 60"
proof -
  have org: "search_optimal_organization_point
         (stub_externals failed_response failed_response failed_response near_west)
         (Point (0, 0)) [cafe, pub, club] = Inr (Point (8, 0), with_point (8, 0) ''pub'')"
    by (simp add: search_optimal_organization_point_def optimal_step_def stub_defs
        estimate_walking_time_def SPEED_value math_pi_def OPTIMAL_WALK_TIME_def
        org_item_point_def Let_def)
       (simp_all add: float_defs)
  have geo1: "search_optimal_geo_point
         (stub_externals failed_response failed_response failed_response near_west)
         (Point (0, 0)) [obelisk, kiosk]
       = Inr (Point (5375776068021243 / 281474976710656, 0),
              with_point (5375776068021243 / 281474976710656, 0) ''obelisk'')"
    by (simp add: search_optimal_geo_point_def optimal_step_def stub_defs
        estimate_walking_time_def SPEED_value math_pi_def OPTIMAL_WALK_TIME_def Let_def)
       (simp_all add: float_defs)
  have geo2: "search_optimal_geo_point
         (stub_externals failed_response failed_response failed_response near_west)
         (Point (0, 0)) [kiosk, obelisk] = Inr (Point (0, 0), with_point (0, 0) ''kiosk'')"
    by (simp add: search_optimal_geo_point_def optimal_step_def stub_defs
        estimate_walking_time_def SPEED_value math_pi_def OPTIMAL_WALK_TIME_def Let_def)
       (simp_all add: float_defs)
  have tie: "fmul math_pi (5375776068021243 / 281474976710656) = 60"
    by (simp add: math_pi_def float_defs)
  have exact: "math_pi * (5375776068021243 / 281474976710656) \<noteq> 60"
    by (simp add: math_pi_def)
  from scorer_picks_first_closest [where org_items = "[cafe, pub, club]"
      and geo_items = "[obelisk, kiosk]" and start_point = "Point (0, 0)"
      and ext = "stub_externals failed_response failed_response failed_response near_west"]
    org geo1 geo2 tie exact
  show ?thesis by simp
qed

subsection \<open>Destination search\<close>

text \<open>
  Claim C2, amended. When the geo-search answers with a status other than 200 and no
  search term was given, \<open>search_destination\<close> fails with \<open>ValidationError\<close>; when
  a search term was given it falls back to the catalogue search over the same rectangle
  with the same term.
\<close>

theorem search_destination_geo_failure:
  assumes "code (geo_search ext (coordinates (fst (get_search_polygon start_point)))
             (coordinates (snd (get_search_polygon start_point)))
             (get_search_query_by_type ser ty)) \<noteq> 200"
  shows "search_destination ext ser start_point ty =
           (if get_search_query_by_type ser ty = None
            then Inl (ValidationError
                   (code (geo_search ext (coordinates (fst (get_search_polygon start_point)))
                      (coordinates (snd (get_search_polygon start_point))) None)))
            else search_organization_point ext start_point
                   (fst (get_search_polygon start_point)) (snd (get_search_polygon start_point))
                   (get_search_query_by_type ser ty))"
  using assms
  by (simp add: search_destination_def search_geo_point_def Let_def split_beta)

lemma stub_polygon:
  "get_search_polygon (Point (0, 0)) =
     (Point (- fl (29 / 1000), fl (19 / 1000)), Point (fl (29 / 1000), - fl (19 / 1000)))"
  by (simp add: get_search_polygon_def Let_def) (simp add: float_defs)

text \<open>A failed geo-search for bars is answered from the catalogue.\<close>

theorem search_destination_geo_failure_witness:
  "code (geo_search (stub_externals failed_response failed_response (ok_response [cafe, pub])
            near_west)
          (coordinates (fst (get_search_polygon (Point (0, 0)))))
          (coordinates (snd (get_search_polygon (Point (0, 0)))))
          (get_search_query_by_type string_serializer ''bar'')) \<noteq> 200
   \<and> search_destination (stub_externals failed_response failed_response
          (ok_response [cafe, pub]) near_west) string_serializer (Point (0, 0)) ''bar''
       = search_organization_point (stub_externals failed_response failed_response
          (ok_response [cafe, pub]) near_west) (Point (0, 0))
          (Point (- fl (29 / 1000), fl (19 / 1000))) (Point (fl (29 / 1000), - fl (19 / 1000)))
          (Some [0x411, 0x430, 0x440])"
  using search_destination_geo_failure [of
      "stub_externals failed_response failed_response (ok_response [cafe, pub]) near_west"
      "Point (0, 0)" string_serializer "''bar''"]
  by (simp add: stub_externals_def failed_response_def string_serializer_def stub_polygon
      get_search_query_by_type_def)

text \<open>
  The claim as stated fails both ways: with the term for bars a failed geo-search does not
  raise but returns the catalogue's candidate, and for a category without a term it raises
  although the catalogue search would have succeeded.
\<close>

theorem search_destination_counterexample:
  "get_search_query_by_type string_serializer ''bar'' = Some [0x411, 0x430, 0x440]
   \<and> code (geo_search (stub_externals failed_response failed_response
              (ok_response [cafe, pub]) near_west)
            (- fl (29 / 1000), fl (19 / 1000)) (fl (29 / 1000), - fl (19 / 1000))
            (Some [0x411, 0x430, 0x440])) = 404
   \<and> search_destination (stub_externals failed_response failed_response
          (ok_response [cafe, pub]) near_west) string_serializer (Point (0, 0)) ''bar''
       = Inr (Point (8, 0), with_point (8, 0) ''pub'')
   \<and> get_search_query_by_type string_serializer ''park'' = None
   \<and> search_organization_point (stub_externals failed_response failed_response
          (ok_response [cafe, pub]) near_west) (Point (0, 0))
          (Point (- fl (29 / 1000), fl (19 / 1000))) (Point (fl (29 / 1000), - fl (19 / 1000)))
          None
       = Inr (Point (8, 0), with_point (8, 0) ''pub'')
   \<and> search_destination (stub_externals failed_response failed_response
          (ok_response [cafe, pub]) near_west) string_serializer (Point (0, 0)) ''park''
       = Inl (ValidationError 404)"
  by (simp add: search_destination_def search_geo_point_def search_organization_point_def
      search_optimal_organization_point_def optimal_step_def Let_def stub_defs
      stub_polygon get_search_query_by_type_def estimate_walking_time_def
      SPEED_value math_pi_def OPTIMAL_WALK_TIME_def org_item_point_def)
     (simp_all add: float_defs)

subsection \<open>Response building\<close>

lemma metadata_loop_skips:
  assumes "\<forall>p\<in>set ps. code (geo_search_near ext (coordinates p)) = 200
             \<longrightarrow> items (geo_search_near ext (coordinates p)) \<noteq> []"
  shows "metadata_loop ext ps acc =
           Inr (acc @ map (\<lambda>p. with_point
                   (coordinates (geo_selection (hd (items (geo_search_near ext (coordinates p))))))
                   (geo_data (hd (items (geo_search_near ext (coordinates p))))))
                 (filter (\<lambda>p. code (geo_search_near ext (coordinates p)) = 200) ps))"
  using assms
proof (induction ps arbitrary: acc)
  case Nil
  then show ?case by simp
next
  case (Cons p ps)
  show ?case
  proof (cases "code (geo_search_near ext (coordinates p)) = 200")
    case True
    with Cons.prems obtain item others
      where "items (geo_search_near ext (coordinates p)) = item # others"
      by (cases "items (geo_search_near ext (coordinates p))") auto
    with True Cons show ?thesis by (simp add: Let_def)
  next
    case False
    with Cons show ?thesis by (simp add: Let_def)
  qed
qed

lemma metadata_loop_filter:
  "metadata_loop ext ps acc =
     metadata_loop ext (filter (\<lambda>p. code (geo_search_near ext (coordinates p)) = 200) ps) acc"
  by (induction ps arbitrary: acc) (simp_all add: Let_def split: list.splits)

text \<open>
  Claim C8. The sampled points whose nearby lookup answers with a status other than 200
  are skipped: the metadata are those of a run over the successful samples alone. When the
  route is built and every successful lookup has an item, the result is produced, its
  \<open>route_points\<close> being the enriched first items of the successful samples in order.
\<close>

theorem failed_lookup_is_omitted:
  assumes "build_route ext rpoints alternatives_count = Inr ls"
    and "\<forall>p\<in>set (metadata_route_points rpoints).
           code (geo_search_near ext (coordinates p)) = 200
           \<longrightarrow> items (geo_search_near ext (coordinates p)) \<noteq> []"
  shows "get_route_points_metadata ext rpoints =
           metadata_loop ext
             (filter (\<lambda>p. code (geo_search_near ext (coordinates p)) = 200)
                (metadata_route_points rpoints)) []
         \<and> prepare_route_response ext wt rpoints end_point_metadata alternatives_count =
           Inr \<lparr>walking_time = py_round2 wt,
                route = serialize_linestring ls,
                route_points =
                  map (\<lambda>p. with_point
                         (coordinates (geo_selection
                            (hd (items (geo_search_near ext (coordinates p))))))
                         (geo_data (hd (items (geo_search_near ext (coordinates p))))))
                    (filter (\<lambda>p. code (geo_search_near ext (coordinates p)) = 200)
                       (metadata_route_points rpoints)),
                steps_count = py_round (fdiv (fmul SPEED wt) AVERAGE_STRIDE_LENGTH),
                end_point_data = end_point_metadata\<rparr>"
  using assms(1) metadata_loop_skips [OF assms(2), of "[]"]
    metadata_loop_filter [of ext "metadata_route_points rpoints" "[]"]
  by (simp add: prepare_route_response_def get_route_points_metadata_def)

text \<open>
  The response to the two waypoints \<open>(0, 0)\<close> and \<open>(2, 1)\<close> over the marked route, as a
  function of the walking time: the nearby lookup fails for the second waypoint.
\<close>

lemma stub_response:
  "prepare_route_response (stub_externals (ok_response [marked_route]) failed_response
        failed_response near_west) wt [Point (0, 0), Point (2, 1)] None 5
     = Inr \<lparr>walking_time = py_round2 wt,
            route = [\<lparr>longitude = 0, latitude = 0\<rparr>, \<lparr>longitude = 1, latitude = 0\<rparr>,
                     \<lparr>longitude = 1, latitude = 1\<rparr>, \<lparr>longitude = 2, latitude = 1\<rparr>],
            route_points = [with_point (0, 9) ''statue''],
            steps_count = py_round (fdiv (fmul SPEED wt) AVERAGE_STRIDE_LENGTH),
            end_point_data = None\<rparr>"
  by (simp add: prepare_route_response_def get_route_points_metadata_def
      build_route_def Let_def stub_defs linestrings_of_def
      final_linestring_positions_def points_to_query_def metadata_route_points_def
      METADATA_ROUTE_POINTS_COUNT_def serialize_linestring_def)

text \<open>Of two waypoints the lookup fails for the second; the first is still enriched.\<close>

theorem failed_lookup_is_omitted_witness:
  "build_route (stub_externals (ok_response [marked_route]) failed_response failed_response
       near_west) [Point (0, 0), Point (2, 1)] 5
     = Inr (LineString [(0, 0), (1, 0), (1, 1), (2, 1)])
   \<and> code (near_west (0, 0)) = 200 \<and> items (near_west (0, 0)) \<noteq> []
   \<and> code (near_west (2, 1)) = 404
   \<and> prepare_route_response (stub_externals (ok_response [marked_route]) failed_response
        failed_response near_west) 12 [Point (0, 0), Point (2, 1)] None 5
     = Inr \<lparr>walking_time = 12,
            route = [\<lparr>longitude = 0, latitude = 0\<rparr>, \<lparr>longitude = 1, latitude = 0\<rparr>,
                     \<lparr>longitude = 1, latitude = 1\<rparr>, \<lparr>longitude = 2, latitude = 1\<rparr>],
            route_points = [with_point (0, 9) ''statue''],
            steps_count = 1000,
            end_point_data = None\<rparr>"
proof -
  have r: "py_round2 12 = 12"
    by (simp add: float_defs)
  have s: "py_round (fdiv (fmul SPEED 12) AVERAGE_STRIDE_LENGTH) = 1000"
    by (simp add: SPEED_value AVERAGE_STRIDE_LENGTH_value float_defs)
  from failed_lookup_is_omitted [of
      "stub_externals (ok_response [marked_route]) failed_response failed_response near_west"
      "[Point (0, 0), Point (2, 1)]" 5 "LineString [(0, 0), (1, 0), (1, 1), (2, 1)]" 12 None]
    r s
  show ?thesis
    by (simp add: build_route_def Let_def stub_defs linestrings_of_def
        final_linestring_positions_def points_to_query_def metadata_route_points_def
        METADATA_ROUTE_POINTS_COUNT_def serialize_linestring_def)
qed

text \<open>
  Claim C7. The \<open>steps_count\<close> of a result is
  \<open>round(SPEED * walking_time / AVERAGE_STRIDE_LENGTH)\<close>: the integer nearest to the
  quotient that the doubles compute, the even one when two are equally near, with a speed
  of 50 meters per minute and a stride of 0.6 meters, the double nearest to that decimal.
\<close>

theorem steps_count_formula:
  assumes "prepare_route_response ext wt rpoints end_point_metadata alternatives_count = Inr r"
  shows "steps_count r = py_round (fdiv (fmul SPEED wt) AVERAGE_STRIDE_LENGTH)
         \<and> \<bar>of_int (steps_count r) - fdiv (fmul SPEED wt) AVERAGE_STRIDE_LENGTH\<bar> \<le> 1 / 2
         \<and> (\<bar>of_int (steps_count r) - fdiv (fmul SPEED wt) AVERAGE_STRIDE_LENGTH\<bar> = 1 / 2
              \<longrightarrow> even (steps_count r))
         \<and> SPEED = 50
         \<and> AVERAGE_STRIDE_LENGTH = 5404319552844595 / 9007199254740992"
proof -
  have "steps_count r = py_round (fdiv (fmul SPEED wt) AVERAGE_STRIDE_LENGTH)"
    using assms by (auto simp: prepare_route_response_def split: sum.splits)
  then show ?thesis
    using py_round_nearest [of "fdiv (fmul SPEED wt) AVERAGE_STRIDE_LENGTH"]
      py_round_tie_even [of "fdiv (fmul SPEED wt) AVERAGE_STRIDE_LENGTH"]
      SPEED_value AVERAGE_STRIDE_LENGTH_value
    by simp
qed

text \<open>
  At 0.054 minutes the doubles compute a quotient just above four and a half, and the
  step count is 5; at 0.018 minutes the quotient is one and a half exactly, and the step
  count is the even 2.
\<close>

theorem steps_count_formula_witness:
  "prepare_route_response (stub_externals (ok_response [marked_route]) failed_response
        failed_response near_west) (7782220156096217 / 144115188075855872)
        [Point (0, 0), Point (2, 1)] None 5
     = Inr \<lparr>walking_time = 3602879701896397 / 72057594037927936,
            route = [\<lparr>longitude = 0, latitude = 0\<rparr>, \<lparr>longitude = 1, latitude = 0\<rparr>,
                     \<lparr>longitude = 1, latitude = 1\<rparr>, \<lparr>longitude = 2, latitude = 1\<rparr>],
            route_points = [with_point (0, 9) ''statue''],
            steps_count = 5,
            end_point_data = None\<rparr>
   \<and> fl (54 / 1000) = 7782220156096217 / 144115188075855872
   \<and> fdiv (fmul SPEED (7782220156096217 / 144115188075855872)) AVERAGE_STRIDE_LENGTH
       = 5066549580791809 / 1125899906842624
   \<and> py_round (fdiv (fmul SPEED (fl (18 / 1000))) AVERAGE_STRIDE_LENGTH) = 2"
proof -
  have r: "py_round2 (7782220156096217 / 144115188075855872)
             = 3602879701896397 / 72057594037927936"
    by (simp add: float_defs)
  have q: "fdiv (fmul SPEED (7782220156096217 / 144115188075855872)) AVERAGE_STRIDE_LENGTH
             = 5066549580791809 / 1125899906842624"
    by (simp add: SPEED_value AVERAGE_STRIDE_LENGTH_value float_defs)
  have s: "py_round (5066549580791809 / 1125899906842624) = 5"
    by (simp add: float_defs)
  have d: "fl (54 / 1000) = 7782220156096217 / 144115188075855872"
    by (simp add: float_defs)
  have e: "py_round (fdiv (fmul SPEED (fl (18 / 1000))) AVERAGE_STRIDE_LENGTH) = 2"
    by (simp add: SPEED_value AVERAGE_STRIDE_LENGTH_value float_defs)
  from steps_count_formula [of
      "stub_externals (ok_response [marked_route]) failed_response failed_response near_west"
      "7782220156096217 / 144115188075855872" "[Point (0, 0), Point (2, 1)]" None 5
      "\<lparr>walking_time = 3602879701896397 / 72057594037927936,
            route = [\<lparr>longitude = 0, latitude = 0\<rparr>, \<lparr>longitude = 1, latitude = 0\<rparr>,
                     \<lparr>longitude = 1, latitude = 1\<rparr>, \<lparr>longitude = 2, latitude = 1\<rparr>],
            route_points = [with_point (0, 9) ''statue''],
            steps_count = 5,
            end_point_data = None\<rparr>"]
  show ?thesis
    unfolding stub_response r q s d e by simp
qed

text \<open>
  Claim C9. The \<open>walking_time\<close> of a result is the input rounded to two decimal places:
  the double nearest to the hundredth nearest to the input, the even one when two are
  equally near. \<open>steps_count\<close> is computed from the input as given.
\<close>

theorem walking_time_rounded:
  assumes "prepare_route_response ext wt rpoints end_point_metadata alternatives_count = Inr r"
  shows "walking_time r = fl (of_int (py_round (wt * 100)) / 100)
         \<and> \<bar>of_int (py_round (wt * 100)) - wt * 100\<bar> \<le> 1 / 2
         \<and> (\<bar>of_int (py_round (wt * 100)) - wt * 100\<bar> = 1 / 2 \<longrightarrow> even (py_round (wt * 100)))
         \<and> steps_count r = py_round (fdiv (fmul SPEED wt) AVERAGE_STRIDE_LENGTH)"
proof -
  have "walking_time r = py_round2 wt"
    and "steps_count r = py_round (fdiv (fmul SPEED wt) AVERAGE_STRIDE_LENGTH)"
    using assms by (auto simp: prepare_route_response_def split: sum.splits)
  then show ?thesis
    using py_round_nearest [of "wt * 100"] py_round_tie_even [of "wt * 100"]
    by (simp add: py_round2_def)
qed

text \<open>
  At 1.0859375 minutes the field is 1.09, where cutting the digits off would give 1.08,
  and the step count is 90; the rounded time would give 91. At 0.125 minutes, half-way
  between two hundredths, the field is the even 0.12.
\<close>

theorem walking_time_rounded_witness:
  "prepare_route_response (stub_externals (ok_response [marked_route]) failed_response
        failed_response near_west) (139 / 128) [Point (0, 0), Point (2, 1)] None 5
     = Inr \<lparr>walking_time = 4908923593833841 / 4503599627370496,
            route = [\<lparr>longitude = 0, latitude = 0\<rparr>, \<lparr>longitude = 1, latitude = 0\<rparr>,
                     \<lparr>longitude = 1, latitude = 1\<rparr>, \<lparr>longitude = 2, latitude = 1\<rparr>],
            route_points = [with_point (0, 9) ''statue''],
            steps_count = 90,
            end_point_data = None\<rparr>
   \<and> fl (109 / 100) = 4908923593833841 / 4503599627370496
   \<and> fl (108 / 100) \<noteq> 4908923593833841 / 4503599627370496
   \<and> py_round (fdiv (fmul SPEED (fl (109 / 100))) AVERAGE_STRIDE_LENGTH) = 91
   \<and> py_round2 (1 / 8) = fl (12 / 100)"
proof -
  have r: "py_round2 (139 / 128) = 4908923593833841 / 4503599627370496"
    by (simp add: float_defs)
  have s: "py_round (fdiv (fmul SPEED (139 / 128)) AVERAGE_STRIDE_LENGTH) = 90"
    by (simp add: SPEED_value AVERAGE_STRIDE_LENGTH_value float_defs)
  have a: "fl (109 / 100) = 4908923593833841 / 4503599627370496"
    by (simp add: float_defs)
  have b: "fl (108 / 100) \<noteq> 4908923593833841 / 4503599627370496"
    by (simp add: float_defs)
  have c: "py_round (fdiv (fmul SPEED (4908923593833841 / 4503599627370496))
             AVERAGE_STRIDE_LENGTH) = 91"
    by (simp add: SPEED_value AVERAGE_STRIDE_LENGTH_value float_defs)
  have d: "py_round2 (1 / 8) = fl (12 / 100)"
    by (simp add: float_defs)
  from walking_time_rounded [of
      "stub_externals (ok_response [marked_route]) failed_response failed_response near_west"
      "139 / 128" "[Point (0, 0), Point (2, 1)]" None 5
      "\<lparr>walking_time = 4908923593833841 / 4503599627370496,
            route = [\<lparr>longitude = 0, latitude = 0\<rparr>, \<lparr>longitude = 1, latitude = 0\<rparr>,
                     \<lparr>longitude = 1, latitude = 1\<rparr>, \<lparr>longitude = 2, latitude = 1\<rparr>],
            route_points = [with_point (0, 9) ''statue''],
            steps_count = 90,
            end_point_data = None\<rparr>"]
    b
  show ?thesis
    unfolding stub_response r s a c d by simp
qed

subsection \<open>The two request flows\<close>

text \<open>
  Claim C10. The category flow passes \<open>math.pi * estimate_walking_time(start, end)\<close>
  for the destination found to the response builder; the concrete flow passes
  \<open>estimate_walking_time(start, end)\<close>.
\<close>

theorem walking_time_of_flows:
  "poi_post ext ser raw_point ty =
     (case search_destination ext ser (Point (longitude raw_point, latitude raw_point)) ty of
        Inl e \<Rightarrow> Inl e
      | Inr (end_point, metadata) \<Rightarrow>
          prepare_route_response ext
            (fmul math_pi (estimate_walking_time ext
               (Point (longitude raw_point, latitude raw_point)) end_point))
            (get_points_for_round_route ext
               (Point (longitude raw_point, latitude raw_point)) end_point)
            (Some metadata) 0)
   \<and> concrete_post ext raw_start_point raw_end_point =
       prepare_route_response ext
         (estimate_walking_time ext
            (Point (longitude raw_start_point, latitude raw_start_point))
            (Point (longitude raw_end_point, latitude raw_end_point)))
         [Point (longitude raw_start_point, latitude raw_start_point),
          Point (longitude raw_end_point, latitude raw_end_point)]
         None 5"
  by (simp add: poi_post_def concrete_post_def Let_def ALTERNATIVES_COUNT_def
      split: sum.split prod.split)

text \<open>
  From the same start to the same end, nine minutes of straight walk, the category flow
  reports 28.27 minutes and the concrete flow 9.
\<close>

theorem walking_time_of_flows_witness:
  "poi_post (stub_externals (ok_response [marked_route]) (ok_response [statue, fountain])
       failed_response near_west) string_serializer \<lparr>longitude = 0, latitude = 0\<rparr> ''bar''
     = Inr \<lparr>walking_time = fl (2827 / 100),
            route = [\<lparr>longitude = 0, latitude = 0\<rparr>, \<lparr>longitude = 1, latitude = 0\<rparr>,
                     \<lparr>longitude = 1, latitude = 1\<rparr>, \<lparr>longitude = 2, latitude = 1\<rparr>],
            route_points = [with_point (0, 9) ''statue'', with_point (0, 9) ''statue''],
            steps_count = 2356,
            end_point_data = Some (with_point (0, 9) ''statue'')\<rparr>
   \<and> concrete_post (stub_externals (ok_response [marked_route])
         (ok_response [statue, fountain]) failed_response near_west)
         \<lparr>longitude = 0, latitude = 0\<rparr> \<lparr>longitude = 0, latitude = 9\<rparr>
     = Inr \<lparr>walking_time = 9,
            route = [\<lparr>longitude = 0, latitude = 0\<rparr>, \<lparr>longitude = 1, latitude = 0\<rparr>,
                     \<lparr>longitude = 1, latitude = 1\<rparr>, \<lparr>longitude = 2, latitude = 1\<rparr>],
            route_points = [with_point (0, 9) ''statue'', with_point (0, 9) ''statue''],
            steps_count = 750,
            end_point_data = None\<rparr>"
proof -
  let ?ext = "stub_externals (ok_response [marked_route]) (ok_response [statue, fountain])
         failed_response near_west"
  have dest: "search_destination ?ext string_serializer (Point (0, 0)) ''bar''
                = Inr (Point (0, 9), with_point (0, 9) ''statue'')"
    by (simp add: search_destination_def search_geo_point_def search_optimal_geo_point_def
        optimal_step_def Let_def stub_defs stub_polygon get_search_query_by_type_def
        estimate_walking_time_def SPEED_value math_pi_def OPTIMAL_WALK_TIME_def)
       (simp_all add: float_defs)
  have est: "estimate_walking_time ?ext (Point (0, 0)) (Point (0, 9)) = 9"
    by (simp add: stub_defs estimate_walking_time_def SPEED_value float_defs)
  have wt: "fmul math_pi 9 = 7958517471031995 / 281474976710656"
    by (simp add: math_pi_def float_defs)
  have loop: "get_points_for_round_route ?ext (Point (0, 0)) (Point (0, 9))
                = [Point (0, 0), Point (- 9, 9 / 2), Point (0, 9), Point (9, 9 / 2),
                   Point (0, 0)]"
    by (simp add: get_points_for_round_route_def Let_def stub_defs) (simp add: float_defs)
  have poi: "prepare_route_response ?ext (7958517471031995 / 281474976710656)
               [Point (0, 0), Point (- 9, 9 / 2), Point (0, 9), Point (9, 9 / 2), Point (0, 0)]
               (Some (with_point (0, 9) ''statue'')) 0
             = Inr \<lparr>walking_time = py_round2 (7958517471031995 / 281474976710656),
                    route = [\<lparr>longitude = 0, latitude = 0\<rparr>, \<lparr>longitude = 1, latitude = 0\<rparr>,
                             \<lparr>longitude = 1, latitude = 1\<rparr>, \<lparr>longitude = 2, latitude = 1\<rparr>],
                    route_points = [with_point (0, 9) ''statue'', with_point (0, 9) ''statue''],
                    steps_count = py_round (fdiv (fmul SPEED
                      (7958517471031995 / 281474976710656)) AVERAGE_STRIDE_LENGTH),
                    end_point_data = Some (with_point (0, 9) ''statue'')\<rparr>"
    by (simp add: prepare_route_response_def get_route_points_metadata_def
        build_route_def Let_def stub_defs linestrings_of_def
        final_linestring_positions_def points_to_query_def metadata_route_points_def
        METADATA_ROUTE_POINTS_COUNT_def upt_rec serialize_linestring_def)
  have con: "prepare_route_response ?ext 9 [Point (0, 0), Point (0, 9)] None 5
             = Inr \<lparr>walking_time = py_round2 9,
                    route = [\<lparr>longitude = 0, latitude = 0\<rparr>, \<lparr>longitude = 1, latitude = 0\<rparr>,
                             \<lparr>longitude = 1, latitude = 1\<rparr>, \<lparr>longitude = 2, latitude = 1\<rparr>],
                    route_points = [with_point (0, 9) ''statue'', with_point (0, 9) ''statue''],
                    steps_count = py_round (fdiv (fmul SPEED 9) AVERAGE_STRIDE_LENGTH),
                    end_point_data = None\<rparr>"
    by (simp add: prepare_route_response_def get_route_points_metadata_def
        build_route_def Let_def stub_defs linestrings_of_def
        final_linestring_positions_def points_to_query_def metadata_route_points_def
        METADATA_ROUTE_POINTS_COUNT_def serialize_linestring_def)
  have r1: "py_round2 (7958517471031995 / 281474976710656) = fl (2827 / 100)"
    by (simp add: float_defs)
  have s1: "py_round (fdiv (fmul SPEED (7958517471031995 / 281474976710656))
              AVERAGE_STRIDE_LENGTH) = 2356"
    by (simp add: SPEED_value AVERAGE_STRIDE_LENGTH_value float_defs)
  have r2: "py_round2 9 = 9"
    by (simp add: float_defs)
  have s2: "py_round (fdiv (fmul SPEED 9) AVERAGE_STRIDE_LENGTH) = 750"
    by (simp add: SPEED_value AVERAGE_STRIDE_LENGTH_value float_defs)
  have "poi_post ?ext string_serializer \<lparr>longitude = 0, latitude = 0\<rparr> ''bar''
          = prepare_route_response ?ext (7958517471031995 / 281474976710656)
               [Point (0, 0), Point (- 9, 9 / 2), Point (0, 9), Point (9, 9 / 2), Point (0, 0)]
               (Some (with_point (0, 9) ''statue'')) 0"
    using walking_time_of_flows [of ?ext string_serializer
        "\<lparr>longitude = 0, latitude = 0\<rparr>" "''bar''"
        "\<lparr>longitude = 0, latitude = 0\<rparr>" "\<lparr>longitude = 0, latitude = 9\<rparr>"]
    by (simp add: dest est wt loop)
  moreover have "concrete_post ?ext \<lparr>longitude = 0, latitude = 0\<rparr> \<lparr>longitude = 0, latitude = 9\<rparr>
          = prepare_route_response ?ext 9 [Point (0, 0), Point (0, 9)] None 5"
    using walking_time_of_flows [of ?ext string_serializer
        "\<lparr>longitude = 0, latitude = 0\<rparr>" "''bar''"
        "\<lparr>longitude = 0, latitude = 0\<rparr>" "\<lparr>longitude = 0, latitude = 9\<rparr>"]
    by (simp add: est)
  ultimately show ?thesis
    unfolding poi con r1 s1 r2 s2 by simp
qed

end
